theory Spec2Isabelle
  imports Main "HOL-Library.AList" "HOL-Library.Sublist"
begin

section \<open>Python text primitives used by the plugin\<close>

text \<open>
  A Python \<open>str\<close> is represented by the bytes of its UTF-8 encoding, one \<open>char\<close> per
  byte; a \<open>bytes\<close> value is a \<open>string\<close> as well. Every pattern the plugin searches for
  (space, \<open>=\<close>, \<open>|\<close>, backslash, the status prefix) is ASCII, and an ASCII byte never occurs
  inside a multi-byte UTF-8 sequence, so searching and splitting on the encoding gives
  the encoding of what Python computes on code points. Whitespace and line boundaries
  beyond ASCII are listed below by their encodings.
\<close>

definition byte :: "char \<Rightarrow> nat" where
  "byte c = of_char c"

definition startswith :: "string \<Rightarrow> string \<Rightarrow> bool" where
  "startswith s p = (take (length p) s = p)"

text \<open>\<open>p in s\<close> for byte strings and strings.\<close>

fun contains :: "string \<Rightarrow> string \<Rightarrow> bool" where
  "contains [] p = (p = [])"
| "contains (c # cs) p = (startswith (c # cs) p \<or> contains cs p)"

text \<open>
  \<open>s.replace(old, new)\<close>: the occurrences of \<open>old\<close> are found from the left and do not
  overlap. The counter is the number of bytes of a matched occurrence still to skip.
\<close>

fun replace_from :: "nat \<Rightarrow> string \<Rightarrow> string \<Rightarrow> string \<Rightarrow> string" where
  "replace_from k [] old new = (if old = [] then new else [])"
| "replace_from (Suc k) (c # cs) old new = replace_from k cs old new"
| "replace_from 0 (c # cs) old new =
     (if old = [] then new @ c # replace_from 0 cs old new
      else if startswith (c # cs) old then new @ replace_from (length old - 1) cs old new
      else c # replace_from 0 cs old new)"

definition replace :: "string \<Rightarrow> string \<Rightarrow> string \<Rightarrow> string" where
  "replace s old new = replace_from 0 s old new"

text \<open>\<open>s.split(sep)\<close> for a separator of one character: never the empty list.\<close>

fun split_on :: "char \<Rightarrow> string \<Rightarrow> string list" where
  "split_on sep [] = [[]]"
| "split_on sep (c # cs) =
     (if c = sep then [] # split_on sep cs
      else (case split_on sep cs of [] \<Rightarrow> [[c]] | p # ps \<Rightarrow> (c # p) # ps))"

text \<open>
  The code points for which \<open>str.isspace\<close> holds, by their UTF-8 encodings:
  U+0009..U+000D, U+001C..U+0020, U+0085, U+00A0, U+1680, U+2000..U+200A, U+2028,
  U+2029, U+202F, U+205F, U+3000.
\<close>

definition spaces :: "string list" where
  "spaces =
     [[CHR 0x09], [CHR 0x0A], [CHR 0x0B], [CHR 0x0C], [CHR 0x0D],
      [CHR 0x1C], [CHR 0x1D], [CHR 0x1E], [CHR 0x1F], [CHR 0x20],
      [CHR 0xC2, CHR 0x85], [CHR 0xC2, CHR 0xA0], [CHR 0xE1, CHR 0x9A, CHR 0x80],
      [CHR 0xE2, CHR 0x80, CHR 0x80], [CHR 0xE2, CHR 0x80, CHR 0x81],
      [CHR 0xE2, CHR 0x80, CHR 0x82], [CHR 0xE2, CHR 0x80, CHR 0x83],
      [CHR 0xE2, CHR 0x80, CHR 0x84], [CHR 0xE2, CHR 0x80, CHR 0x85],
      [CHR 0xE2, CHR 0x80, CHR 0x86], [CHR 0xE2, CHR 0x80, CHR 0x87],
      [CHR 0xE2, CHR 0x80, CHR 0x88], [CHR 0xE2, CHR 0x80, CHR 0x89],
      [CHR 0xE2, CHR 0x80, CHR 0x8A], [CHR 0xE2, CHR 0x80, CHR 0xA8],
      [CHR 0xE2, CHR 0x80, CHR 0xA9], [CHR 0xE2, CHR 0x80, CHR 0xAF],
      [CHR 0xE2, CHR 0x81, CHR 0x9F], [CHR 0xE3, CHR 0x80, CHR 0x80]]"

text \<open>
  Removing, from the left, every leading sequence of the list \<open>ps\<close>. The counter is the
  number of bytes of a matched sequence still to drop.
\<close>

fun strip_prefixes :: "string list \<Rightarrow> nat \<Rightarrow> string \<Rightarrow> string" where
  "strip_prefixes ps k [] = []"
| "strip_prefixes ps (Suc k) (c # cs) = strip_prefixes ps k cs"
| "strip_prefixes ps 0 (c # cs) =
     (case find (startswith (c # cs)) ps of
        None \<Rightarrow> c # cs
      | Some p \<Rightarrow> (if p = [] then c # cs else strip_prefixes ps (length p - 1) cs))"

definition lstrip :: "string \<Rightarrow> string" where
  "lstrip s = strip_prefixes spaces 0 s"

definition rstrip :: "string \<Rightarrow> string" where
  "rstrip s = rev (strip_prefixes (map rev spaces) 0 (rev s))"

definition strip :: "string \<Rightarrow> string" where
  "strip s = rstrip (lstrip s)"

text \<open>
  \<open>str.splitlines()\<close>: the line boundaries are CR LF, LF, CR, VT, FF, FS, GS, RS, U+0085,
  U+2028 and U+2029; a boundary at the very end opens no further line. \<open>cur\<close> is the
  line read so far, the counter the bytes of a matched boundary still to skip.
\<close>

definition line_breaks :: "string list" where
  "line_breaks =
     [[CHR 0x0D, CHR 0x0A], [CHR 0x0A], [CHR 0x0D], [CHR 0x0B], [CHR 0x0C],
      [CHR 0x1C], [CHR 0x1D], [CHR 0x1E], [CHR 0xC2, CHR 0x85],
      [CHR 0xE2, CHR 0x80, CHR 0xA8], [CHR 0xE2, CHR 0x80, CHR 0xA9]]"

fun splitlines_from :: "nat \<Rightarrow> string \<Rightarrow> string \<Rightarrow> string list" where
  "splitlines_from k cur [] = (if cur = [] then [] else [cur])"
| "splitlines_from (Suc k) cur (c # cs) = splitlines_from k cur cs"
| "splitlines_from 0 cur (c # cs) =
     (case find (startswith (c # cs)) line_breaks of
        None \<Rightarrow> splitlines_from 0 (cur @ [c]) cs
      | Some b \<Rightarrow> cur # splitlines_from (length b - 1) [] cs)"

definition splitlines :: "string \<Rightarrow> string list" where
  "splitlines s = splitlines_from 0 [] s"

text \<open>
  \<open>data.decode(errors="ignore")\<close>, UTF-8: a well-formed sequence is kept, any other byte
  is dropped. (CPython reports a maximal ill-formed prefix at once; the bytes after its
  first are continuation bytes, which are ill-formed on their own, so dropping byte by
  byte leaves the same text.) \<open>utf8_len\<close> is the length of the well-formed sequence at the
  head of the input, 0 when there is none.
\<close>

definition is_cont :: "nat \<Rightarrow> bool" where
  "is_cont b = (0x80 \<le> b \<and> b \<le> 0xBF)"

definition second_ok :: "nat \<Rightarrow> nat \<Rightarrow> bool" where
  "second_ok b0 b1 =
     (if b0 = 0xE0 then 0xA0 \<le> b1 \<and> b1 \<le> 0xBF
      else if b0 = 0xED then 0x80 \<le> b1 \<and> b1 \<le> 0x9F
      else if b0 = 0xF0 then 0x90 \<le> b1 \<and> b1 \<le> 0xBF
      else if b0 = 0xF4 then 0x80 \<le> b1 \<and> b1 \<le> 0x8F
      else is_cont b1)"

fun utf8_len :: "nat list \<Rightarrow> nat" where
  "utf8_len [] = 0"
| "utf8_len (b0 # bs) =
     (if b0 < 0x80 then 1
      else if 0xC2 \<le> b0 \<and> b0 \<le> 0xDF then
        (case bs of b1 # _ \<Rightarrow> if is_cont b1 then 2 else 0 | _ \<Rightarrow> 0)
      else if 0xE0 \<le> b0 \<and> b0 \<le> 0xEF then
        (case bs of b1 # b2 # _ \<Rightarrow> if second_ok b0 b1 \<and> is_cont b2 then 3 else 0 | _ \<Rightarrow> 0)
      else if 0xF0 \<le> b0 \<and> b0 \<le> 0xF4 then
        (case bs of b1 # b2 # b3 # _ \<Rightarrow>
           if second_ok b0 b1 \<and> is_cont b2 \<and> is_cont b3 then 4 else 0 | _ \<Rightarrow> 0)
      else 0)"

fun decode_from :: "nat \<Rightarrow> string \<Rightarrow> string" where
  "decode_from k [] = []"
| "decode_from (Suc k) (c # cs) = c # decode_from k cs"
| "decode_from 0 (c # cs) =
     (case utf8_len (map byte (take 4 (c # cs))) of
        0 \<Rightarrow> decode_from 0 cs
      | Suc k \<Rightarrow> c # decode_from k cs)"

definition decode_ignore :: "string \<Rightarrow> string" where
  "decode_ignore data = decode_from 0 data"

section \<open>The raw ServerQuery codec: records\<close>

text \<open>
  A \<open>dict\<close> from strings to strings is an association list in insertion order;
  \<open>d[k] = v\<close> is \<open>AList.update k v d\<close> (an existing key keeps its place and takes the new
  value), \<open>d.get(k)\<close> is \<open>map_of d k\<close>.
\<close>

type_synonym entry = "(string \<times> string) list"

definition backslash :: char where
  "backslash = CHR 0x5C"

text \<open>\<open>_unescape\<close>: four replacements, one after the other, on the whole value.\<close>

definition unescape :: "string \<Rightarrow> string" where
  "unescape val =
     replace (replace (replace (replace val [backslash, CHR ''s''] '' '')
       [backslash, CHR ''/''] ''/'') [backslash, CHR ''p''] ''|'')
       [backslash, backslash] [backslash]"

text \<open>
  \<open>k, v = p.split("=", 1)\<close> for a token \<open>p\<close> that contains \<open>=\<close>: the key is what stands
  before the first \<open>=\<close>, the value all that follows it.
\<close>

definition split_kv :: "string \<Rightarrow> string \<times> string" where
  "split_kv p = (takeWhile (\<lambda>c. c \<noteq> CHR ''='') p, drop 1 (dropWhile (\<lambda>c. c \<noteq> CHR ''='') p))"

definition parse_entry :: "string \<Rightarrow> entry" where
  "parse_entry line =
     (let parts = (if line \<noteq> [] then split_on CHR '' '' (strip line) else [])
      in fold (\<lambda>p d. if CHR ''='' \<in> set p
                       then (case split_kv p of (k, v) \<Rightarrow> AList.update k (unescape v) d)
                       else d) parts [])"

text \<open>
  The part of \<open>_send_and_recv\<close> after decoding: the lines that are not blank, the status
  line when the last of them starts with \<open>error id=\<close>, a sentinel status otherwise, and
  the records of the data lines, each line split on \<open>|\<close> and its blank parts left out.
\<close>

definition records_of :: "string list \<Rightarrow> entry list" where
  "records_of entries =
     concat (map (\<lambda>entry. map parse_entry
                    (filter (\<lambda>part. strip part \<noteq> []) (split_on CHR ''|'' entry))) entries)"

definition parse_response :: "string \<Rightarrow> entry list \<times> entry" where
  "parse_response text =
     (let lines = filter (\<lambda>l. strip l \<noteq> []) (splitlines text)
      in if lines = [] then ([], [(''id'', ''-1''), (''msg'', ''no response'')])
         else if startswith (last lines) ''error id=''
         then (records_of (butlast lines), parse_entry (last lines))
         else (records_of lines, [(''id'', ''-1''), (''msg'', ''no error line'')]))"

section \<open>The environment: the client library and the socket\<close>

text \<open>
  What the program does to the outside is recorded in a log; what the outside answers is
  scripted. \<open>inbox\<close> is what successive \<open>sock.recv\<close> calls meet: bytes that have arrived
  (\<open>Data []\<close> is the end of the stream, and stays), a read that blocks past the timeout
  (as does every read once the script is used up), or a read that raises \<open>OSError\<close>.
  \<open>send_script\<close> says which \<open>sock.sendall\<close> calls raise, \<open>tcp_accepts\<close> whether
  \<open>socket.create_connection\<close> succeeds. The \<open>ts3\<close> package is not part of the repository:
  \<open>ts3_importable\<close> says whether \<open>import ts3\<close> succeeds and \<open>ts3_script\<close> gives the outcome
  of each successive call into it, the rows it returns or an exception.
\<close>

datatype exn = ImportError | TS3Error | IndexError | ValueError string | OSError

datatype recv_event = Data string | Timeout | Reset

datatype recv_result = Bytes string | TimedOut | Failed

datatype ts3_reply = Ts3Rows "entry list" | Ts3Raise

datatype event = Ts3Call string | Ts3Close | TcpConnect string int | TcpSend string | TcpClose

record world =
  ts3_importable :: bool
  ts3_script :: "ts3_reply list"
  tcp_accepts :: bool
  send_script :: "bool list"
  inbox :: "recv_event list"
  log :: "event list"

text \<open>\<open>sock.recv(n)\<close>: at most \<open>n\<close> bytes of what has arrived; the rest stays for the next read.\<close>

fun sock_recv :: "nat \<Rightarrow> recv_event list \<Rightarrow> recv_result \<times> recv_event list" where
  "sock_recv n [] = (TimedOut, [])"
| "sock_recv n (Timeout # evs) = (TimedOut, evs)"
| "sock_recv n (Reset # evs) = (Failed, evs)"
| "sock_recv n (Data bs # evs) =
     (if bs = [] then (Bytes [], Data [] # evs)
      else if length bs \<le> n then (Bytes bs, evs)
      else (Bytes (take n bs), Data (drop n bs) # evs))"

fun weight :: "recv_event \<Rightarrow> nat" where
  "weight (Data bs) = Suc (length bs)"
| "weight Timeout = 1"
| "weight Reset = 1"

lemma sock_recv_weight:
  "sock_recv n evs = (Bytes chunk, evs') \<Longrightarrow> chunk \<noteq> [] \<Longrightarrow> 0 < n \<Longrightarrow>
     sum_list (map weight evs') < sum_list (map weight evs)"
  by (induction n evs rule: sock_recv.induct) (auto split: if_splits)

text \<open>
  The \<open>while True\<close> loop of \<open>_send_and_recv\<close>: it ends at the end of the stream, at a
  timeout, or once the status prefix stands in the data (with or without carriage
  returns); another exception of \<open>recv\<close> leaves the function.
\<close>

function recv_loop :: "string \<Rightarrow> recv_event list \<Rightarrow> (exn + string) \<times> recv_event list" where
  "recv_loop data evs =
     (case sock_recv 4096 evs of
        (TimedOut, evs') \<Rightarrow> (Inr data, evs')
      | (Failed, evs') \<Rightarrow> (Inl OSError, evs')
      | (Bytes chunk, evs') \<Rightarrow>
          if chunk = [] then (Inr data, evs')
          else if contains (data @ chunk) ''\<newline>error id=''
                  \<or> contains (filter (\<lambda>c. c \<noteq> CHR 0x0D) (data @ chunk)) ''\<newline>error id=''
          then (Inr (data @ chunk), evs')
          else recv_loop (data @ chunk) evs')"
  by pat_completeness auto
termination
  by (relation "measure (\<lambda>(data, evs). sum_list (map weight evs))")
     (auto dest: sock_recv_weight [OF sym])

definition sock_sendall :: "string \<Rightarrow> world \<Rightarrow> (exn + unit) \<times> world" where
  "sock_sendall bs w =
     (case send_script w of
        [] \<Rightarrow> (Inr (), w\<lparr>log := log w @ [TcpSend bs]\<rparr>)
      | ok # rest \<Rightarrow> (if ok then Inr () else Inl OSError,
                      w\<lparr>send_script := rest, log := log w @ [TcpSend bs]\<rparr>))"

definition sock_close :: "world \<Rightarrow> world" where
  "sock_close w = w\<lparr>log := log w @ [TcpClose]\<rparr>"

definition send_and_recv :: "string \<Rightarrow> world \<Rightarrow> (exn + entry list \<times> entry) \<times> world" where
  "send_and_recv cmd w =
     (case sock_sendall (cmd @ ''\<newline>'') w of
        (Inl e, w1) \<Rightarrow> (Inl e, w1)
      | (Inr _, w1) \<Rightarrow>
          (case recv_loop [] (inbox w1) of
             (Inl e, evs) \<Rightarrow> (Inl e, w1\<lparr>inbox := evs\<rparr>)
           | (Inr data, evs) \<Rightarrow> (Inr (parse_response (decode_ignore data)), w1\<lparr>inbox := evs\<rparr>)))"

section \<open>Configuration, results and errors\<close>

text \<open>
  The configuration lookups of \<open>_perform_teamspeak_query\<close>, with the types of the plugin's
  configuration schema; an exclusion token is a string or an integer and is normalised
  with \<open>str\<close>. The interpolation of \<open>server_id\<close> into the \<open>use\<close> command prints a decimal.
\<close>

datatype token = TokStr string | TokInt int

record config =
  host :: string
  port :: int
  server_id :: int
  username :: string
  password :: string
  api_key :: string
  show_details :: bool
  exclude_channels :: "token list"

function str_nat :: "nat \<Rightarrow> string" where
  "str_nat n =
     (if n < 10 then [''0123456789'' ! n]
      else str_nat (n div 10) @ [''0123456789'' ! (n mod 10)])"
  by pat_completeness auto
termination
  by (relation "measure id") auto

definition str_int :: "int \<Rightarrow> string" where
  "str_int i = (if i < 0 then CHR ''-'' # str_nat (nat (- i)) else str_nat (nat i))"

fun str_token :: "token \<Rightarrow> string" where
  "str_token (TokStr s) = s"
| "str_token (TokInt i) = str_int i"

text \<open>\<open>str(v)\<close> for the value of \<open>d.get(k)\<close>: a missing key gives \<open>None\<close>, printed as such.\<close>

definition py_str :: "string option \<Rightarrow> string" where
  "py_str v = (case v of None \<Rightarrow> ''None'' | Some s \<Rightarrow> s)"

text \<open>
  \<open>int(s)\<close> on a string: surrounding whitespace is ignored, one sign may lead, single
  underscores may stand between digits; anything else raises \<open>ValueError\<close> (\<open>None\<close>
  here). Only the ASCII digits are read as digits, and the interpreter's limit on the
  number of digits is left out.
\<close>

definition digit_val :: "char \<Rightarrow> int option" where
  "digit_val c = (if 48 \<le> byte c \<and> byte c \<le> 57 then Some (int (byte c) - 48) else None)"

fun digits_from :: "int \<Rightarrow> string \<Rightarrow> int option" where
  "digits_from a [] = Some a"
| "digits_from a [c] = (case digit_val c of None \<Rightarrow> None | Some d \<Rightarrow> Some (10 * a + d))"
| "digits_from a (c # c' # cs) =
     (case digit_val c of
        Some d \<Rightarrow> digits_from (10 * a + d) (c' # cs)
      | None \<Rightarrow>
          (if c = CHR ''_'' then
             (case digit_val c' of None \<Rightarrow> None | Some d \<Rightarrow> digits_from (10 * a + d) cs)
           else None))"

definition digits_val :: "string \<Rightarrow> int option" where
  "digits_val s =
     (case s of [] \<Rightarrow> None
      | c # cs \<Rightarrow> (case digit_val c of None \<Rightarrow> None | Some d \<Rightarrow> digits_from d cs))"

definition py_int :: "string \<Rightarrow> int option" where
  "py_int s =
     (case strip s of
        [] \<Rightarrow> None
      | c # cs \<Rightarrow>
          if c = CHR ''-'' then map_option uminus (digits_val cs)
          else if c = CHR ''+'' then digits_val cs
          else digits_val (c # cs))"

definition int_field :: "string \<Rightarrow> exn + int" where
  "int_field s = (case py_int s of None \<Rightarrow> Inl (ValueError s) | Some n \<Rightarrow> Inr n)"

text \<open>
  The result dictionary: the three keys always present, the five keys of a status
  query set together, and the user list with its overflow count. The error messages
  are told apart by their constructor; each carries what the message interpolates.
\<close>

record status_info =
  uptime_days :: int
  uptime_hours :: int
  version :: string
  platform :: string
  channel_count :: nat

record result =
  server_name :: string
  online_count :: nat
  max_clients :: int
  status :: "status_info option"
  online_users :: "string list option"
  more_users :: "nat option"

datatype error =
    CredentialsMissing
  | LoginFailed string
  | UseFailed string
  | ServerinfoFailed string
  | TcpFallbackFailed exn

text \<open>The two default texts of the plugin, "unknown" and "unknown server", in UTF-8.\<close>

definition unknown :: string where
  "unknown = [CHR 0xE6, CHR 0x9C, CHR 0xAA, CHR 0xE7, CHR 0x9F, CHR 0xA5]"

definition unknown_server :: string where
  "unknown_server = unknown @ [CHR 0xE6, CHR 0x9C, CHR 0x8D, CHR 0xE5, CHR 0x8A, CHR 0xA1,
     CHR 0xE5, CHR 0x99, CHR 0xA8]"

definition get_or :: "entry \<Rightarrow> string \<Rightarrow> string \<Rightarrow> string" where
  "get_or d k dflt = (case map_of d k of None \<Rightarrow> dflt | Some v \<Rightarrow> v)"

section \<open>Exclusion, filtering and the user list\<close>

text \<open>
  These steps are written twice in \<open>_perform_teamspeak_query\<close>, once for each backend,
  with the same text; they are defined once here and used by both.
\<close>

text \<open>\<open>ch.get("channel_name") or ch.get("name") or ""\<close>\<close>

definition channel_name :: "entry \<Rightarrow> string" where
  "channel_name ch =
     (case map_of ch ''channel_name'' of
        Some (c # cs) \<Rightarrow> c # cs
      | _ \<Rightarrow> (case map_of ch ''name'' of Some (c # cs) \<Rightarrow> c # cs | _ \<Rightarrow> []))"

text \<open>The dictionary comprehension from channel ids to names: a later channel with the
  id of an earlier one takes its entry.\<close>

definition cid_to_name :: "entry list \<Rightarrow> (string option \<times> string) list" where
  "cid_to_name channels =
     fold (\<lambda>ch d. AList.update (map_of ch ''cid'') (channel_name ch) d) channels []"

definition exclude_token :: "(string option \<times> string) list \<Rightarrow> string \<Rightarrow> string set \<Rightarrow> string set" where
  "exclude_token d ex excluded =
     (if ex \<in> set (map snd d)
      then excluded \<union> set (map (\<lambda>kv. py_str (fst kv)) (filter (\<lambda>kv. snd kv = ex) d))
      else insert ex excluded)"

definition excluded_cids :: "string list \<Rightarrow> entry list \<Rightarrow> string set" where
  "excluded_cids tokens channels = fold (exclude_token (cid_to_name channels)) tokens {}"

definition online_clients :: "entry list \<Rightarrow> string set \<Rightarrow> entry list" where
  "online_clients clients excluded =
     filter (\<lambda>c. map_of c ''client_type'' = Some ''0''
                \<and> py_str (map_of c ''cid'') \<notin> excluded) clients"

definition base_result :: "string \<Rightarrow> int \<Rightarrow> entry list \<Rightarrow> result" where
  "base_result name maxc users =
     \<lparr>server_name = name, online_count = length users, max_clients = maxc,
      status = None, online_users = None, more_users = None\<rparr>"

definition add_user_list :: "entry list \<Rightarrow> result \<Rightarrow> result" where
  "add_user_list users r =
     (let r1 = r\<lparr>online_users :=
                  Some (map (\<lambda>u. get_or u ''client_nickname'' unknown) (take 10 users))\<rparr>
      in if length users > 10 then r1\<lparr>more_users := Some (length users - 10)\<rparr> else r1)"

definition status_of :: "entry \<Rightarrow> int \<Rightarrow> nat \<Rightarrow> status_info" where
  "status_of info uptime n =
     \<lparr>uptime_days = uptime div 86400, uptime_hours = (uptime mod 86400) div 3600,
      version = get_or info ''virtualserver_version'' unknown,
      platform = get_or info ''virtualserver_platform'' unknown,
      channel_count = n\<rparr>"

definition tokens_of :: "config \<Rightarrow> string list" where
  "tokens_of cfg = map str_token (exclude_channels cfg)"

definition login_password :: "config \<Rightarrow> string" where
  "login_password cfg = (if api_key cfg \<noteq> [] then api_key cfg else password cfg)"

section \<open>The raw socket backend\<close>

text \<open>
  The body of the fallback, in the order of the source; each stage ends by running the
  next. A stage gives \<open>Inl e\<close> when an exception \<open>e\<close> leaves it and \<open>Inr\<close> of what the
  function returns otherwise, together with the environment as the stage left it.
\<close>

definition sock_connect :: "config \<Rightarrow> world \<Rightarrow> (exn + unit) \<times> world" where
  "sock_connect cfg w =
     (if tcp_accepts w then Inr () else Inl OSError,
      w\<lparr>log := log w @ [TcpConnect (host cfg) (port cfg)]\<rparr>)"

text \<open>The greeting: one read, whose bytes and whose failure are both discarded.\<close>

definition drain_banner :: "world \<Rightarrow> world" where
  "drain_banner w = w\<lparr>inbox := snd (sock_recv 4096 (inbox w))\<rparr>"

text \<open>The status query: the uptime, then the channel list fetched once more.\<close>

definition tcp_status :: "entry \<Rightarrow> string set \<Rightarrow> world \<Rightarrow> (exn + status_info) \<times> world" where
  "tcp_status info excluded w =
     (case (case map_of info ''virtualserver_uptime'' of
              Some (c # cs) \<Rightarrow> int_field (c # cs)
            | _ \<Rightarrow> Inr 0) of
        Inl e \<Rightarrow> (Inl e, w)
      | Inr uptime \<Rightarrow>
          (case send_and_recv ''channellist'' w of
             (Inl e, w1) \<Rightarrow> (Inl e, w1)
           | (Inr (parsed_channels, _), w1) \<Rightarrow>
               (Inr (status_of info uptime
                      (length (filter (\<lambda>ch. py_str (map_of ch ''cid'') \<notin> excluded)
                                 parsed_channels))), w1)))"

definition tcp_finish ::
  "config \<Rightarrow> string \<Rightarrow> bool \<Rightarrow> entry \<Rightarrow> string \<Rightarrow> int \<Rightarrow> entry list \<Rightarrow> entry list \<Rightarrow> world
     \<Rightarrow> (exn + error + result) \<times> world" where
  "tcp_finish cfg query_type show_user_list info name maxc parsed_clients parsed_channels w =
     (let excluded = excluded_cids (tokens_of cfg) parsed_channels;
          users = online_clients parsed_clients excluded;
          r = base_result name maxc users
      in case (if query_type = ''server_status''
               then (case tcp_status info excluded w of
                       (Inl e, w1) \<Rightarrow> (Inl e, w1)
                     | (Inr st, w1) \<Rightarrow> (Inr (r\<lparr>status := Some st\<rparr>), w1))
               else (Inr r, w)) of
           (Inl e, w1) \<Rightarrow> (Inl e, w1)
         | (Inr r1, w1) \<Rightarrow>
             (let r2 = (if show_user_list \<or> show_details cfg then add_user_list users r1 else r1);
                  w2 = snd (send_and_recv ''quit'' w1)
              in (Inr (Inr r2), sock_close w2)))"

definition tcp_lists ::
  "config \<Rightarrow> string \<Rightarrow> bool \<Rightarrow> entry \<Rightarrow> string \<Rightarrow> int \<Rightarrow> world \<Rightarrow> (exn + error + result) \<times> world" where
  "tcp_lists cfg query_type show_user_list info name maxc w =
     (case send_and_recv ''clientlist'' w of
        (Inl e, w1) \<Rightarrow> (Inl e, w1)
      | (Inr (parsed_clients, err), w1) \<Rightarrow>
          (case send_and_recv ''channellist'' w1 of
             (Inl e, w2) \<Rightarrow> (Inl e, w2)
           | (Inr (parsed_channels, _), w2) \<Rightarrow>
               tcp_finish cfg query_type show_user_list info name maxc
                 parsed_clients parsed_channels w2))"

definition tcp_serverinfo ::
  "config \<Rightarrow> string \<Rightarrow> bool \<Rightarrow> world \<Rightarrow> (exn + error + result) \<times> world" where
  "tcp_serverinfo cfg query_type show_user_list w =
     (case send_and_recv ''serverinfo'' w of
        (Inl e, w1) \<Rightarrow> (Inl e, w1)
      | (Inr (parsed, err), w1) \<Rightarrow>
          if map_of err ''id'' \<noteq> Some ''0''
          then (Inr (Inl (ServerinfoFailed (get_or err ''msg'' []))), sock_close w1)
          else (let info = (case parsed of [] \<Rightarrow> [] | e # _ \<Rightarrow> e);
                    name = get_or info ''virtualserver_name'' unknown_server
                in case int_field (get_or info ''virtualserver_maxclients'' ''0'') of
                     Inl e \<Rightarrow> (Inl e, w1)
                   | Inr maxc \<Rightarrow> tcp_lists cfg query_type show_user_list info name maxc w1))"

definition use_command :: "config \<Rightarrow> string" where
  "use_command cfg = ''use sid='' @ str_int (server_id cfg)"

definition tcp_use ::
  "config \<Rightarrow> string \<Rightarrow> bool \<Rightarrow> world \<Rightarrow> (exn + error + result) \<times> world" where
  "tcp_use cfg query_type show_user_list w =
     (case send_and_recv (use_command cfg) w of
        (Inl e, w1) \<Rightarrow> (Inl e, w1)
      | (Inr (parsed, err), w1) \<Rightarrow>
          if map_of err ''id'' \<noteq> Some ''0''
          then (Inr (Inl (UseFailed (get_or err ''msg'' []))), sock_close w1)
          else tcp_serverinfo cfg query_type show_user_list w1)"

definition login_command :: "config \<Rightarrow> string" where
  "login_command cfg = ''login '' @ username cfg @ '' '' @ login_password cfg"

definition tcp_login ::
  "config \<Rightarrow> string \<Rightarrow> bool \<Rightarrow> world \<Rightarrow> (exn + error + result) \<times> world" where
  "tcp_login cfg query_type show_user_list w =
     (case send_and_recv (login_command cfg) w of
        (Inl e, w1) \<Rightarrow> (Inl e, w1)
      | (Inr (parsed, err), w1) \<Rightarrow>
          if map_of err ''id'' \<noteq> Some ''0''
          then (Inr (Inl (LoginFailed (get_or err ''msg'' []))), sock_close w1)
          else tcp_use cfg query_type show_user_list w1)"

definition tcp_session ::
  "config \<Rightarrow> string \<Rightarrow> bool \<Rightarrow> world \<Rightarrow> (exn + error + result) \<times> world" where
  "tcp_session cfg query_type show_user_list w =
     (case sock_connect cfg w of
        (Inl e, w1) \<Rightarrow> (Inl e, w1)
      | (Inr _, w1) \<Rightarrow> tcp_login cfg query_type show_user_list (drain_banner w1))"

text \<open>The \<open>except Exception as e\<close> around the session turns an exception into an error.\<close>

definition tcp_fallback :: "config \<Rightarrow> string \<Rightarrow> bool \<Rightarrow> world \<Rightarrow> (error + result) \<times> world" where
  "tcp_fallback cfg query_type show_user_list w =
     (case tcp_session cfg query_type show_user_list w of
        (Inl e, w1) \<Rightarrow> (Inl (TcpFallbackFailed e), w1)
      | (Inr r, w1) \<Rightarrow> (r, w1))"

section \<open>The client library backend and the query\<close>

definition ts3_call :: "string \<Rightarrow> world \<Rightarrow> (exn + entry list) \<times> world" where
  "ts3_call name w =
     (case ts3_script w of
        [] \<Rightarrow> (Inl TS3Error, w\<lparr>log := log w @ [Ts3Call name]\<rparr>)
      | r # rs \<Rightarrow>
          (case r of Ts3Raise \<Rightarrow> Inl TS3Error | Ts3Rows rows \<Rightarrow> Inr rows,
           w\<lparr>ts3_script := rs, log := log w @ [Ts3Call name]\<rparr>))"

definition ts3_close :: "world \<Rightarrow> world" where
  "ts3_close w = w\<lparr>log := log w @ [Ts3Close]\<rparr>"

definition ts3_finish ::
  "config \<Rightarrow> string \<Rightarrow> bool \<Rightarrow> entry \<Rightarrow> string \<Rightarrow> int \<Rightarrow> entry list \<Rightarrow> entry list \<Rightarrow> world
     \<Rightarrow> (exn + result) \<times> world" where
  "ts3_finish cfg query_type show_user_list info name maxc clients channels w =
     (let excluded = excluded_cids (tokens_of cfg) channels;
          users = online_clients clients excluded;
          r = base_result name maxc users
      in case (if query_type = ''server_status''
               then (case (case map_of info ''virtualserver_uptime'' of
                             None \<Rightarrow> Inr 0
                           | Some s \<Rightarrow> int_field s) of
                       Inl e \<Rightarrow> Inl e
                     | Inr uptime \<Rightarrow>
                         Inr (r\<lparr>status := Some (status_of info uptime
                               (length (filter (\<lambda>ch. py_str (map_of ch ''cid'') \<notin> excluded)
                                          channels)))\<rparr>))
               else Inr r) of
           Inl e \<Rightarrow> (Inl e, w)
         | Inr r1 \<Rightarrow>
             (Inr (if show_user_list \<or> show_details cfg then add_user_list users r1 else r1),
              ts3_close w))"

definition ts3_session ::
  "config \<Rightarrow> string \<Rightarrow> bool \<Rightarrow> world \<Rightarrow> (exn + result) \<times> world" where
  "ts3_session cfg query_type show_user_list w =
     (case ts3_call ''login'' w of
        (Inl e, w1) \<Rightarrow> (Inl e, w1)
      | (Inr _, w1) \<Rightarrow>
     (case ts3_call ''use'' w1 of
        (Inl e, w2) \<Rightarrow> (Inl e, w2)
      | (Inr _, w2) \<Rightarrow>
     (case ts3_call ''serverinfo'' w2 of
        (Inl e, w3) \<Rightarrow> (Inl e, w3)
      | (Inr [], w3) \<Rightarrow> (Inl IndexError, w3)
      | (Inr (info # _), w3) \<Rightarrow>
     (case int_field (get_or info ''virtualserver_maxclients'' ''0'') of
        Inl e \<Rightarrow> (Inl e, w3)
      | Inr maxc \<Rightarrow>
     (case ts3_call ''clientlist'' w3 of
        (Inl e, w4) \<Rightarrow> (Inl e, w4)
      | (Inr clients, w4) \<Rightarrow>
     (case ts3_call ''channellist'' w4 of
        (Inl e, w5) \<Rightarrow> (Inl e, w5)
      | (Inr channels, w5) \<Rightarrow>
          ts3_finish cfg query_type show_user_list info
            (get_or info ''virtualserver_name'' unknown_server) maxc clients channels w5))))))"

text \<open>\<open>import ts3\<close>, the connection, the session, and the \<open>finally\<close> that closes it.\<close>

definition ts3_path :: "config \<Rightarrow> string \<Rightarrow> bool \<Rightarrow> world \<Rightarrow> (exn + result) \<times> world" where
  "ts3_path cfg query_type show_user_list w =
     (if \<not> ts3_importable w then (Inl ImportError, w)
      else (case ts3_call ''TS3Connection'' w of
              (Inl e, w1) \<Rightarrow> (Inl e, w1)
            | (Inr _, w1) \<Rightarrow>
                (case ts3_session cfg query_type show_user_list w1 of
                   (r, w2) \<Rightarrow> (r, ts3_close w2))))"

definition perform_teamspeak_query ::
  "config \<Rightarrow> string \<Rightarrow> bool \<Rightarrow> world \<Rightarrow> (error + result) \<times> world" where
  "perform_teamspeak_query cfg query_type show_user_list w =
     (if api_key cfg = [] \<and> password cfg = [] then (Inl CredentialsMissing, w)
      else (case ts3_path cfg query_type show_user_list w of
              (Inr r, w1) \<Rightarrow> (Inr r, w1)
            | (Inl _, w1) \<Rightarrow> tcp_fallback cfg query_type show_user_list w1))"

section \<open>Concrete configurations and transcripts\<close>

text \<open>
  The inputs at which the theorems below are instantiated. A transcript is an environment
  without the client library, so that the query runs on the raw socket, whose reads meet
  the given events. A server answers \<open>login\<close> and \<open>use\<close> with a status line alone; the
  read loop looks for a line feed before \<open>error id=\<close>, does not find one, and reads on
  until the timeout, which is why a \<open>Timeout\<close> follows each such answer.
\<close>

definition cfg_none :: config where
  "cfg_none = \<lparr>host = ''localhost'', port = 10011, server_id = 1, username = ''serveradmin'',
     password = [], api_key = [], show_details = True, exclude_channels = []\<rparr>"

definition cfg_pw :: config where
  "cfg_pw = \<lparr>host = ''localhost'', port = 10011, server_id = 1, username = ''serveradmin'',
     password = ''pw'', api_key = [], show_details = False, exclude_channels = []\<rparr>"


definition w_lib :: world where
  "w_lib = \<lparr>ts3_importable = True, ts3_script = [Ts3Rows []], tcp_accepts = True,
     send_script = [], inbox = [Data ''TS3\<newline>''], log = []\<rparr>"

definition script :: "recv_event list \<Rightarrow> world" where
  "script evs = \<lparr>ts3_importable = False, ts3_script = [], tcp_accepts = True, send_script = [],
     inbox = evs, log = []\<rparr>"

definition greeting :: "recv_event list" where
  "greeting = [Data ''TS3\<newline>'', Data ''error id=0 msg=ok\<newline>'', Timeout,
               Data ''error id=0 msg=ok\<newline>'', Timeout]"


definition w_reset :: world where
  "w_reset = script (greeting @ [Reset])"



definition w_chan_fail :: world where
  "w_chan_fail = script (greeting @
     [Data ''virtualserver_name=T\<newline>error id=0 msg=ok\<newline>'',
      Data ''clid=1 cid=1 client_type=0 client_nickname=A\<newline>error id=0 msg=ok\<newline>'',
      Data ''error id=1024 msg=denied\<newline>'', Timeout,
      Data ''error id=0 msg=ok\<newline>''])"

definition w_login_denied :: world where
  "w_login_denied = script [Data ''TS3\<newline>'', Data ''error id=520 msg=denied\<newline>'', Timeout]"

definition w_use_denied :: world where
  "w_use_denied = script [Data ''TS3\<newline>'', Data ''error id=0 msg=ok\<newline>'', Timeout,
     Data ''error id=1024 msg=invalid\<newline>'', Timeout]"

definition w_info_denied :: world where
  "w_info_denied = script (greeting @ [Data ''error id=2568 msg=insufficient\<newline>'', Timeout])"





definition ch_lobby :: entry where
  "ch_lobby = [(''cid'', ''5''), (''channel_name'', ''Lobby'')]"

definition ch_other :: entry where
  "ch_other = [(''cid'', ''5''), (''channel_name'', ''Other'')]"






section \<open>Auxiliary facts\<close>

lemma pair_of_fst: "fst x = a \<Longrightarrow> x = (a, snd x)"
  by auto

text \<open>A sequence of dictionary assignments, read as a map: the last assignment to a key wins.\<close>

lemma map_of_fold_update:
  "map_of (fold (\<lambda>p d. if P p then (case f p of (k, v) \<Rightarrow> AList.update k (g v) d) else d) ps d0)
   = map_of (rev (map (\<lambda>p. (fst (f p), g (snd (f p)))) (filter P ps)) @ d0)"
  by (induction ps arbitrary: d0) (auto simp: update_conv' fun_eq_iff split: prod.splits)

lemma distinct_fold_update:
  "distinct (map fst d0) \<Longrightarrow>
   distinct (map fst (fold (\<lambda>p d. if P p then (case f p of (k, v) \<Rightarrow> AList.update k (g v) d)
                                  else d) ps d0))"
  by (induction ps arbitrary: d0) (auto simp: distinct_update split: prod.splits)

lemma split_kv_first:
  assumes "CHR ''='' \<in> set p"
  shows "p = fst (split_kv p) @ CHR ''='' # snd (split_kv p)
         \<and> CHR ''='' \<notin> set (fst (split_kv p))"
proof -
  let ?P = "\<lambda>c. c \<noteq> CHR ''=''"
  from assms have "dropWhile ?P p \<noteq> []"
    by auto
  then obtain x xs where d: "dropWhile ?P p = x # xs"
    by (cases "dropWhile ?P p") auto
  then have "\<not> ?P x"
    using hd_dropWhile [of ?P p] by auto
  then have x: "x = CHR ''=''"
    by simp
  have "p = takeWhile ?P p @ dropWhile ?P p"
    by simp
  with d x have "p = takeWhile ?P p @ CHR ''='' # xs"
    by simp
  moreover have "CHR ''='' \<notin> set (takeWhile ?P p)"
    by (auto dest: set_takeWhileD)
  ultimately show ?thesis
    using d by (simp add: split_kv_def)
qed

lemma subseq_decode_from: "subseq (decode_from k s) s"
  by (induction k s rule: decode_from.induct) (auto split: nat.splits)

lemma decode_from_ascii: "\<forall>c\<in>set s. byte c < 128 \<Longrightarrow> decode_from 0 s = s"
  by (induction s) (auto split: nat.splits)

text \<open>What a command adds to the log, whatever the reply.\<close>

lemma send_and_recv_log:
  "send_and_recv cmd w = (res, w1) \<Longrightarrow> log w1 = log w @ [TcpSend (cmd @ ''\<newline>'')]"
  unfolding send_and_recv_def sock_sendall_def
  by (auto split: list.splits prod.splits sum.splits if_splits)

lemma drain_banner_log: "log (drain_banner w) = log w"
  by (simp add: drain_banner_def)





text \<open>Every result of the query is the result of one of the two backends' last stage.\<close>

lemma tcp_session_result_from_finish:
  assumes "tcp_session cfg qt sh w = (Inr (Inr r), w')"
  shows "\<exists>info name maxc clients chans w1.
           tcp_finish cfg qt sh info name maxc clients chans w1 = (Inr (Inr r), w')"
  using assms
  unfolding tcp_session_def tcp_login_def tcp_use_def tcp_serverinfo_def tcp_lists_def Let_def
  by (auto split: prod.splits sum.splits if_splits) blast+

lemma ts3_path_result_from_finish:
  assumes "ts3_path cfg qt sh w = (Inr r, w')"
  shows "\<exists>info name maxc clients chans w1 w2.
           ts3_finish cfg qt sh info name maxc clients chans w1 = (Inr r, w2)"
  using assms
  unfolding ts3_path_def ts3_session_def
  by (auto split: prod.splits sum.splits if_splits list.splits) blast+

lemma query_result_from_finish:
  assumes "perform_teamspeak_query cfg qt sh w = (Inr r, w')"
  shows "\<exists>info name maxc clients chans w1 w2.
           tcp_finish cfg qt sh info name maxc clients chans w1 = (Inr (Inr r), w2)
           \<or> ts3_finish cfg qt sh info name maxc clients chans w1 = (Inr r, w2)"
proof (cases "ts3_path cfg qt sh w")
  case (Pair out w1)
  show ?thesis
  proof (cases out)
    case (Inr r')
    with Pair assms have "ts3_path cfg qt sh w = (Inr r, w1)"
      by (auto simp: perform_teamspeak_query_def split: if_splits)
    from ts3_path_result_from_finish [OF this] show ?thesis
      by blast
  next
    case (Inl e)
    with Pair assms have "tcp_fallback cfg qt sh w1 = (Inr r, w')"
      by (auto simp: perform_teamspeak_query_def split: if_splits)
    then have "tcp_session cfg qt sh w1 = (Inr (Inr r), w')"
      by (auto simp: tcp_fallback_def split: prod.splits sum.splits)
    from tcp_session_result_from_finish [OF this] show ?thesis
      by blast
  qed
qed

text \<open>The dictionary of channel names when no id occurs twice, and the exclusion loop.\<close>

lemma update_fresh: "k \<notin> fst ` set d \<Longrightarrow> AList.update k v d = d @ [(k, v)]"
  by (induction d) auto

lemma fold_update_distinct:
  "distinct (map kf xs) \<Longrightarrow> set (map kf xs) \<inter> fst ` set d = {} \<Longrightarrow>
   fold (\<lambda>x d. AList.update (kf x) (vf x) d) xs d = d @ map (\<lambda>x. (kf x, vf x)) xs"
proof (induction xs arbitrary: d)
  case Nil
  then show ?case by simp
next
  case (Cons x xs)
  from Cons.prems have fresh: "kf x \<notin> fst ` set d"
    by auto
  from Cons.prems have "set (map kf xs) \<inter> fst ` set (d @ [(kf x, vf x)]) = {}"
    by auto
  with Cons.prems Cons.IH [of "d @ [(kf x, vf x)]"] fresh show ?case
    by (simp add: update_fresh)
qed

lemma cid_to_name_distinct:
  "distinct (map (\<lambda>ch. map_of ch ''cid'') chans) \<Longrightarrow>
   cid_to_name chans = map (\<lambda>ch. (map_of ch ''cid'', channel_name ch)) chans"
  unfolding cid_to_name_def
  using fold_update_distinct [where kf = "\<lambda>ch. map_of ch ''cid''" and vf = channel_name and d = "[]"]
  by simp

lemma fold_exclude_token:
  "fold (exclude_token d) ts acc =
   acc \<union> (\<Union>t\<in>set ts. if t \<in> snd ` set d
                        then (\<lambda>kv. py_str (fst kv)) ` {kv \<in> set d. snd kv = t} else {t})"
  by (induction ts arbitrary: acc) (auto simp: exclude_token_def)

section \<open>Filtering the clients\<close>



section \<open>Unescaping\<close>

text \<open>
  C2. \<open>_unescape\<close> is the composition of four replacements in this order: backslash-s by
  a space, backslash-slash by a slash, backslash-p by a bar, and last a doubled backslash
  by a single one. On the text a, backslash, s, b, backslash, slash, c, backslash, p, d,
  backslash, backslash, e it returns a, space, b, slash, c, bar, d, backslash, e.
\<close>

theorem unescape_fixed_order:
  "unescape s =
     replace (replace (replace (replace s [CHR 0x5C, CHR ''s''] '' '')
       [CHR 0x5C, CHR ''/''] ''/'') [CHR 0x5C, CHR ''p''] ''|'') [CHR 0x5C, CHR 0x5C] [CHR 0x5C]
   \<and> unescape (''a'' @ [CHR 0x5C] @ ''sb'' @ [CHR 0x5C] @ ''/c'' @ [CHR 0x5C] @ ''pd''
                 @ [CHR 0x5C, CHR 0x5C] @ ''e'')
       = ''a b/c|d'' @ [CHR 0x5C] @ ''e''"
  by (simp add: unescape_def backslash_def replace_def startswith_def)

section \<open>The status line\<close>



section \<open>Resolving the exclusion tokens\<close>

text \<open>
  C4, as the code has it. The names are looked up in a dictionary from channel ids to
  names, so of two channels with one id only the later keeps its name. For every list of
  tokens and every channel list in which no id occurs twice: a token that is the name of
  some channel contributes the ids (as strings) of the channels of that name, and nothing
  else; any other token contributes itself.
\<close>

theorem exclusion_name_match_first:
  assumes "distinct (map (\<lambda>ch. map_of ch ''cid'') channels)"
  shows "excluded_cids tokens channels =
           (\<Union>t\<in>set tokens.
              if \<exists>ch\<in>set channels. channel_name ch = t
              then {py_str (map_of ch ''cid'') | ch. ch \<in> set channels \<and> channel_name ch = t}
              else {t})"
proof -
  have "excluded_cids tokens channels =
     (\<Union>t\<in>set tokens. if t \<in> snd ` set (cid_to_name channels)
         then (\<lambda>kv. py_str (fst kv)) ` {kv \<in> set (cid_to_name channels). snd kv = t} else {t})"
    by (simp add: excluded_cids_def fold_exclude_token)
  also have "\<dots> = (\<Union>t\<in>set tokens.
              if \<exists>ch\<in>set channels. channel_name ch = t
              then {py_str (map_of ch ''cid'') | ch. ch \<in> set channels \<and> channel_name ch = t}
              else {t})"
  proof (intro SUP_cong refl)
    fix t
    let ?d = "map (\<lambda>ch. (map_of ch ''cid'', channel_name ch)) channels"
    have c: "(t \<in> snd ` set ?d) = (\<exists>ch\<in>set channels. channel_name ch = t)"
      by force
    have s: "(\<lambda>kv. py_str (fst kv)) ` {kv \<in> set ?d. snd kv = t}
             = {py_str (map_of ch ''cid'') | ch. ch \<in> set channels \<and> channel_name ch = t}"
      by force
    show "(if t \<in> snd ` set (cid_to_name channels)
           then (\<lambda>kv. py_str (fst kv)) ` {kv \<in> set (cid_to_name channels). snd kv = t} else {t})
        = (if \<exists>ch\<in>set channels. channel_name ch = t
           then {py_str (map_of ch ''cid'') | ch. ch \<in> set channels \<and> channel_name ch = t}
           else {t})"
      unfolding cid_to_name_distinct [OF assms] c s ..
  qed
  finally show ?thesis .
qed

theorem exclusion_name_match_first_witness:
  "distinct (map (\<lambda>ch. map_of ch ''cid'') [ch_lobby])
   \<and> excluded_cids [''Lobby'', ''7''] [ch_lobby] = {''5'', ''7''}"
proof -
  have d: "distinct (map (\<lambda>ch. map_of ch ''cid'') [ch_lobby])"
    by simp
  have n: "channel_name ch_lobby = ''Lobby''" "py_str (map_of ch_lobby ''cid'') = ''5''"
    by (simp_all add: channel_name_def ch_lobby_def py_str_def)
  from exclusion_name_match_first [OF d, of "[''Lobby'', ''7'']"] n d show ?thesis
    by auto
qed

text \<open>
  C4, as stated, fails when two channels of the list carry the same id: the token Lobby
  is the name of the first channel, whose id is 5, yet the exclusion set is the token
  itself and does not hold 5.
\<close>

theorem exclusion_duplicate_id_counterexample:
  "channel_name ch_lobby = ''Lobby'' \<and> py_str (map_of ch_lobby ''cid'') = ''5''
   \<and> excluded_cids [''Lobby''] [ch_lobby, ch_other] = {''Lobby''}
   \<and> ''5'' \<notin> excluded_cids [''Lobby''] [ch_lobby, ch_other]"
  by (simp add: channel_name_def ch_lobby_def ch_other_def py_str_def excluded_cids_def
      cid_to_name_def exclude_token_def)

section \<open>Closing the session\<close>

text \<open>
  C5 says that the session is closed on every path. On the raw socket an exception that
  leaves the session is turned into an error without a call of \<open>close\<close>: here the
  connection is reset while the reply to \<open>serverinfo\<close> is awaited, the query returns the
  fallback error, and the log holds the connection and three commands but no close.
\<close>

theorem socket_left_open_on_exception:
  "perform_teamspeak_query cfg_pw ''online_count'' False w_reset
     = (Inl (TcpFallbackFailed OSError),
        \<lparr>ts3_importable = False, ts3_script = [], tcp_accepts = True, send_script = [],
         inbox = [],
         log = [TcpConnect ''localhost'' 10011, TcpSend ''login serveradmin pw\<newline>'',
                TcpSend ''use sid=1\<newline>'', TcpSend ''serverinfo\<newline>'']\<rparr>)
   \<and> TcpClose \<notin> set (log (snd (perform_teamspeak_query cfg_pw ''online_count'' False w_reset)))"
proof -
  have "perform_teamspeak_query cfg_pw ''online_count'' False w_reset
     = (Inl (TcpFallbackFailed OSError),
        \<lparr>ts3_importable = False, ts3_script = [], tcp_accepts = True, send_script = [],
         inbox = [],
         log = [TcpConnect ''localhost'' 10011, TcpSend ''login serveradmin pw\<newline>'',
                TcpSend ''use sid=1\<newline>'', TcpSend ''serverinfo\<newline>'']\<rparr>)"
    by code_simp
  then show ?thesis by simp
qed

section \<open>Failed protocol steps\<close>

text \<open>
  C6, as the code has it. On the raw socket, for each of the steps \<open>login\<close>, \<open>use\<close> and
  \<open>serverinfo\<close>: when the steps before it succeeded and its status id is not the string 0,
  the query returns the error of that step with the status message, closes the socket,
  and has sent no command after that of the failed step: the log is the connection, the
  commands up to the failed one, and the close.
\<close>

theorem checked_steps_stop_the_session:
  assumes conn: "sock_connect cfg w = (Inr (), w0)"
    and login: "send_and_recv (login_command cfg) (drain_banner w0) = (Inr (p1, e1), w1)"
  shows "(map_of e1 ''id'' \<noteq> Some ''0'' \<longrightarrow>
            tcp_fallback cfg qt sh w = (Inl (LoginFailed (get_or e1 ''msg'' [])), sock_close w1)
          \<and> log (sock_close w1)
              = log w @ [TcpConnect (host cfg) (port cfg),
                         TcpSend (login_command cfg @ ''\<newline>''), TcpClose])
       \<and> (map_of e1 ''id'' = Some ''0'' \<longrightarrow>
           (\<forall>p2 e2 w2. send_and_recv (use_command cfg) w1 = (Inr (p2, e2), w2) \<longrightarrow>
              (map_of e2 ''id'' \<noteq> Some ''0'' \<longrightarrow>
                 tcp_fallback cfg qt sh w = (Inl (UseFailed (get_or e2 ''msg'' [])), sock_close w2)
               \<and> log (sock_close w2)
                   = log w @ [TcpConnect (host cfg) (port cfg),
                              TcpSend (login_command cfg @ ''\<newline>''),
                              TcpSend (use_command cfg @ ''\<newline>''), TcpClose])
            \<and> (map_of e2 ''id'' = Some ''0'' \<longrightarrow>
                (\<forall>p3 e3 w3. send_and_recv ''serverinfo'' w2 = (Inr (p3, e3), w3) \<longrightarrow>
                   map_of e3 ''id'' \<noteq> Some ''0'' \<longrightarrow>
                     tcp_fallback cfg qt sh w
                       = (Inl (ServerinfoFailed (get_or e3 ''msg'' [])), sock_close w3)
                   \<and> log (sock_close w3)
                       = log w @ [TcpConnect (host cfg) (port cfg),
                                  TcpSend (login_command cfg @ ''\<newline>''),
                                  TcpSend (use_command cfg @ ''\<newline>''),
                                  TcpSend ''serverinfo\<newline>'', TcpClose]))))"
proof -
  from conn have l0: "log w0 = log w @ [TcpConnect (host cfg) (port cfg)]"
    by (auto simp: sock_connect_def)
  from send_and_recv_log [OF login] l0
  have l1: "log w1 = log w @ [TcpConnect (host cfg) (port cfg),
                              TcpSend (login_command cfg @ ''\<newline>'')]"
    by (simp add: drain_banner_log)
  have start: "tcp_fallback cfg qt sh w =
      (case tcp_login cfg qt sh (drain_banner w0) of
         (Inl e, w') \<Rightarrow> (Inl (TcpFallbackFailed e), w') | (Inr r, w') \<Rightarrow> (r, w'))"
    using conn by (simp add: tcp_fallback_def tcp_session_def)
  have a: "map_of e1 ''id'' \<noteq> Some ''0'' \<Longrightarrow>
      tcp_fallback cfg qt sh w = (Inl (LoginFailed (get_or e1 ''msg'' [])), sock_close w1)"
    using login by (simp add: start tcp_login_def)
  have b: "tcp_fallback cfg qt sh w = (Inl (UseFailed (get_or e2 ''msg'' [])), sock_close w2)"
    if "map_of e1 ''id'' = Some ''0''" "send_and_recv (use_command cfg) w1 = (Inr (p2, e2), w2)"
       "map_of e2 ''id'' \<noteq> Some ''0''" for p2 e2 w2
    using login that by (simp add: start tcp_login_def tcp_use_def)
  have c: "tcp_fallback cfg qt sh w = (Inl (ServerinfoFailed (get_or e3 ''msg'' [])), sock_close w3)"
    if "map_of e1 ''id'' = Some ''0''" "send_and_recv (use_command cfg) w1 = (Inr (p2, e2), w2)"
       "map_of e2 ''id'' = Some ''0''" "send_and_recv ''serverinfo'' w2 = (Inr (p3, e3), w3)"
       "map_of e3 ''id'' \<noteq> Some ''0''" for p2 e2 w2 p3 e3 w3
    using login that by (simp add: start tcp_login_def tcp_use_def tcp_serverinfo_def)
  have l2: "log w2 = log w1 @ [TcpSend (use_command cfg @ ''\<newline>'')]"
    if "send_and_recv (use_command cfg) w1 = (Inr (p2, e2), w2)" for p2 e2 w2
    using send_and_recv_log [OF that] .
  have l3: "log w3 = log w2 @ [TcpSend ''serverinfo\<newline>'']"
    if "send_and_recv ''serverinfo'' w2 = (Inr (p3, e3), w3)" for p3 e3 w2 w3
    using send_and_recv_log [OF that] by simp
  show ?thesis
    using a b c l1 l2 l3 by (simp add: sock_close_def)
qed

theorem checked_steps_stop_the_session_witness:
  "fst (tcp_fallback cfg_pw ''online_count'' False w_login_denied) = Inl (LoginFailed ''denied'')
   \<and> log (snd (tcp_fallback cfg_pw ''online_count'' False w_login_denied))
       = [TcpConnect ''localhost'' 10011, TcpSend ''login serveradmin pw\<newline>'', TcpClose]
   \<and> fst (tcp_fallback cfg_pw ''online_count'' False w_use_denied) = Inl (UseFailed ''invalid'')
   \<and> log (snd (tcp_fallback cfg_pw ''online_count'' False w_use_denied))
       = [TcpConnect ''localhost'' 10011, TcpSend ''login serveradmin pw\<newline>'',
          TcpSend ''use sid=1\<newline>'', TcpClose]
   \<and> fst (tcp_fallback cfg_pw ''online_count'' False w_info_denied)
       = Inl (ServerinfoFailed ''insufficient'')
   \<and> log (snd (tcp_fallback cfg_pw ''online_count'' False w_info_denied))
       = [TcpConnect ''localhost'' 10011, TcpSend ''login serveradmin pw\<newline>'',
          TcpSend ''use sid=1\<newline>'', TcpSend ''serverinfo\<newline>'', TcpClose]"
proof -
  have cmds: "login_command cfg_pw = ''login serveradmin pw''" "use_command cfg_pw = ''use sid=1''"
    "host cfg_pw = ''localhost''" "port cfg_pw = 10011"
    by code_simp+
  let ?ok = "[(''id'', ''0''), (''msg'', ''ok'')]"
  have A: "fst (tcp_fallback cfg_pw ''online_count'' False w_login_denied) = Inl (LoginFailed ''denied'')
     \<and> log (snd (tcp_fallback cfg_pw ''online_count'' False w_login_denied))
       = [TcpConnect ''localhost'' 10011, TcpSend ''login serveradmin pw\<newline>'', TcpClose]"
  proof -
    let ?w0 = "snd (sock_connect cfg_pw w_login_denied)"
    let ?w1 = "snd (send_and_recv (login_command cfg_pw) (drain_banner ?w0))"
    have conn: "sock_connect cfg_pw w_login_denied = (Inr (), ?w0)"
      by (simp add: sock_connect_def w_login_denied_def script_def)
    have "fst (send_and_recv (login_command cfg_pw) (drain_banner ?w0))
            = Inr ([], [(''id'', ''520''), (''msg'', ''denied'')])"
      by code_simp
    then have login: "send_and_recv (login_command cfg_pw) (drain_banner ?w0)
            = (Inr ([], [(''id'', ''520''), (''msg'', ''denied'')]), ?w1)"
      by (rule pair_of_fst)
    have "log w_login_denied = []"
      by (simp add: w_login_denied_def script_def)
    with checked_steps_stop_the_session [OF conn login, of "''online_count''" False] cmds
    show ?thesis by (simp add: get_or_def)
  qed
  have B: "fst (tcp_fallback cfg_pw ''online_count'' False w_use_denied) = Inl (UseFailed ''invalid'')
     \<and> log (snd (tcp_fallback cfg_pw ''online_count'' False w_use_denied))
       = [TcpConnect ''localhost'' 10011, TcpSend ''login serveradmin pw\<newline>'',
          TcpSend ''use sid=1\<newline>'', TcpClose]"
  proof -
    let ?w0 = "snd (sock_connect cfg_pw w_use_denied)"
    let ?w1 = "snd (send_and_recv (login_command cfg_pw) (drain_banner ?w0))"
    let ?w2 = "snd (send_and_recv (use_command cfg_pw) ?w1)"
    have conn: "sock_connect cfg_pw w_use_denied = (Inr (), ?w0)"
      by (simp add: sock_connect_def w_use_denied_def script_def)
    have "fst (send_and_recv (login_command cfg_pw) (drain_banner ?w0)) = Inr ([], ?ok)"
      by code_simp
    then have login: "send_and_recv (login_command cfg_pw) (drain_banner ?w0) = (Inr ([], ?ok), ?w1)"
      by (rule pair_of_fst)
    have "fst (send_and_recv (use_command cfg_pw) ?w1)
            = Inr ([], [(''id'', ''1024''), (''msg'', ''invalid'')])"
      by code_simp
    then have use: "send_and_recv (use_command cfg_pw) ?w1
            = (Inr ([], [(''id'', ''1024''), (''msg'', ''invalid'')]), ?w2)"
      by (rule pair_of_fst)
    have "log w_use_denied = []"
      by (simp add: w_use_denied_def script_def)
    with checked_steps_stop_the_session [OF conn login, of "''online_count''" False] use cmds
    show ?thesis by (simp add: get_or_def)
  qed
  have C: "fst (tcp_fallback cfg_pw ''online_count'' False w_info_denied)
       = Inl (ServerinfoFailed ''insufficient'')
     \<and> log (snd (tcp_fallback cfg_pw ''online_count'' False w_info_denied))
       = [TcpConnect ''localhost'' 10011, TcpSend ''login serveradmin pw\<newline>'',
          TcpSend ''use sid=1\<newline>'', TcpSend ''serverinfo\<newline>'', TcpClose]"
  proof -
    let ?w0 = "snd (sock_connect cfg_pw w_info_denied)"
    let ?w1 = "snd (send_and_recv (login_command cfg_pw) (drain_banner ?w0))"
    let ?w2 = "snd (send_and_recv (use_command cfg_pw) ?w1)"
    let ?w3 = "snd (send_and_recv ''serverinfo'' ?w2)"
    have conn: "sock_connect cfg_pw w_info_denied = (Inr (), ?w0)"
      by (simp add: sock_connect_def w_info_denied_def script_def)
    have "fst (send_and_recv (login_command cfg_pw) (drain_banner ?w0)) = Inr ([], ?ok)"
      by code_simp
    then have login: "send_and_recv (login_command cfg_pw) (drain_banner ?w0) = (Inr ([], ?ok), ?w1)"
      by (rule pair_of_fst)
    have "fst (send_and_recv (use_command cfg_pw) ?w1) = Inr ([], ?ok)"
      by code_simp
    then have use: "send_and_recv (use_command cfg_pw) ?w1 = (Inr ([], ?ok), ?w2)"
      by (rule pair_of_fst)
    have "fst (send_and_recv ''serverinfo'' ?w2)
            = Inr ([], [(''id'', ''2568''), (''msg'', ''insufficient'')])"
      by code_simp
    then have info: "send_and_recv ''serverinfo'' ?w2
            = (Inr ([], [(''id'', ''2568''), (''msg'', ''insufficient'')]), ?w3)"
      by (rule pair_of_fst)
    have "log w_info_denied = []"
      by (simp add: w_info_denied_def script_def)
    with checked_steps_stop_the_session [OF conn login, of "''online_count''" False] use info cmds
    show ?thesis by (simp add: get_or_def)
  qed
  from A B C show ?thesis by simp
qed

text \<open>
  C6, as stated, fails at \<open>channellist\<close>, whose status the session does not look at: the
  reply to \<open>channellist\<close> is the status line with id 1024 alone, and the query goes on,
  sends \<open>quit\<close> and returns a result.
\<close>

theorem channellist_status_ignored_counterexample:
  "snd (parse_response ''error id=1024 msg=denied\<newline>'') = [(''id'', ''1024''), (''msg'', ''denied'')]
   \<and> perform_teamspeak_query cfg_pw ''online_count'' False w_chan_fail
     = (Inr \<lparr>server_name = ''T'', online_count = 1, max_clients = 0, status = None,
             online_users = None, more_users = None\<rparr>,
        \<lparr>ts3_importable = False, ts3_script = [], tcp_accepts = True, send_script = [],
         inbox = [],
         log = [TcpConnect ''localhost'' 10011, TcpSend ''login serveradmin pw\<newline>'',
                TcpSend ''use sid=1\<newline>'', TcpSend ''serverinfo\<newline>'',
                TcpSend ''clientlist\<newline>'', TcpSend ''channellist\<newline>'',
                TcpSend ''quit\<newline>'', TcpClose]\<rparr>)"
  by code_simp

section \<open>Missing credentials\<close>

text \<open>
  C7. When the password and the api key are both empty, the query returns the
  configuration error at once and hands the environment back as it received it: nothing
  is added to the log, so neither the client library nor a socket has been asked for a
  connection.
\<close>

theorem missing_credentials_no_network:
  assumes "api_key cfg = []" and "password cfg = []"
  shows "perform_teamspeak_query cfg query_type show_user_list w = (Inl CredentialsMissing, w)
         \<and> log (snd (perform_teamspeak_query cfg query_type show_user_list w)) = log w"
  using assms by (simp add: perform_teamspeak_query_def)

theorem missing_credentials_no_network_witness:
  "api_key cfg_none = [] \<and> password cfg_none = []
   \<and> perform_teamspeak_query cfg_none ''online_count'' True w_lib = (Inl CredentialsMissing, w_lib)
   \<and> log (snd (perform_teamspeak_query cfg_none ''online_count'' True w_lib)) = []"
proof -
  have a: "api_key cfg_none = []" and p: "password cfg_none = []"
    by (simp_all add: cfg_none_def)
  have "log w_lib = []"
    by (simp add: w_lib_def)
  with missing_credentials_no_network [OF a p, of "''online_count''" True w_lib] a p
  show ?thesis by simp
qed

section \<open>The user list\<close>



section \<open>The number of client slots\<close>




section \<open>Parsing records\<close>

text \<open>
  C10. \<open>_parse_entry\<close> has no failing case: for every line it gives a dictionary, which as
  a map is that of the tokens containing \<open>=\<close>, read from the last to the first, so a
  token without \<open>=\<close> adds nothing and of two tokens with one key the later gives the
  value; the keys are distinct. Such a token is split at its first \<open>=\<close>: the key holds no
  \<open>=\<close> and the value is all that follows. The records of a data line are those of its
  parts between bars that are not blank. Decoding drops bytes and never fails: the
  decoded text is a subsequence of the bytes received, and all of them when they are
  ASCII.
\<close>

theorem parse_entry_total:
  "map_of (parse_entry line)
     = map_of (rev (map (\<lambda>p. (fst (split_kv p), unescape (snd (split_kv p))))
                 (filter (\<lambda>p. CHR ''='' \<in> set p)
                    (if line \<noteq> [] then split_on CHR '' '' (strip line) else []))))
   \<and> distinct (map fst (parse_entry line))
   \<and> (CHR ''='' \<in> set p \<longrightarrow>
        p = fst (split_kv p) @ CHR ''='' # snd (split_kv p) \<and> CHR ''='' \<notin> set (fst (split_kv p)))
   \<and> records_of [l] = map parse_entry (filter (\<lambda>part. strip part \<noteq> []) (split_on CHR ''|'' l))
   \<and> subseq (decode_ignore bs) bs
   \<and> ((\<forall>c\<in>set bs. byte c < 128) \<longrightarrow> decode_ignore bs = bs)"
proof -
  have "map_of (parse_entry line)
     = map_of (rev (map (\<lambda>p. (fst (split_kv p), unescape (snd (split_kv p))))
                 (filter (\<lambda>p. CHR ''='' \<in> set p)
                    (if line \<noteq> [] then split_on CHR '' '' (strip line) else []))))"
    unfolding parse_entry_def Let_def
    using map_of_fold_update [where P = "\<lambda>p. CHR ''='' \<in> set p" and f = split_kv
        and g = unescape and ?d0.0 = "[]"]
    by simp
  moreover have "distinct (map fst (parse_entry line))"
    unfolding parse_entry_def Let_def by (rule distinct_fold_update) simp
  moreover have "records_of [l]
      = map parse_entry (filter (\<lambda>part. strip part \<noteq> []) (split_on CHR ''|'' l))"
    by (simp add: records_of_def)
  ultimately show ?thesis
    using split_kv_first [of p] subseq_decode_from [of 0 bs] decode_from_ascii [of bs]
    by (simp add: decode_ignore_def)
qed

theorem parse_entry_total_witness:
  "map_of (parse_entry ''a=1 b  a=2=3 '') ''a'' = Some ''2=3''
   \<and> map_of (parse_entry ''a=1 b  a=2=3 '') ''b'' = None
   \<and> CHR ''='' \<in> set ''a=2=3'' \<and> split_kv ''a=2=3'' = (''a'', ''2=3'')
   \<and> records_of [''x=1||y=2| ''] = [[(''x'', ''1'')], [(''y'', ''2'')]]
   \<and> list_all (\<lambda>c. byte c < 128) ''ok'' \<and> decode_ignore ''ok'' = ''ok''
   \<and> decode_ignore [CHR 0xFF, CHR ''o'', CHR 0xC3, CHR ''k''] = ''ok''"
proof -
  have sp: "filter (\<lambda>p. CHR ''='' \<in> set p) (split_on CHR '' '' (strip ''a=1 b  a=2=3 ''))
      = [''a=1'', ''a=2=3'']"
    by code_simp
  have kv: "split_kv ''a=1'' = (''a'', ''1'')" "split_kv ''a=2=3'' = (''a'', ''2=3'')"
    by (simp_all add: split_kv_def)
  have un: "unescape ''1'' = ''1''" "unescape ''2=3'' = ''2=3''"
    by code_simp+
  have parts: "filter (\<lambda>part. strip part \<noteq> []) (split_on CHR ''|'' ''x=1||y=2| '')
      = [''x=1'', ''y=2'']"
    by code_simp
  have pe: "parse_entry ''x=1'' = [(''x'', ''1'')]" "parse_entry ''y=2'' = [(''y'', ''2'')]"
    by code_simp+
  have asc: "\<forall>c\<in>set ''ok''. byte c < 128"
    by (simp add: byte_def)
  have bad: "decode_ignore [CHR 0xFF, CHR ''o'', CHR 0xC3, CHR ''k''] = ''ok''"
    by code_simp
  from parse_entry_total [of "''a=1 b  a=2=3 ''" "''a=2=3''" "''x=1||y=2| ''" "''ok''"]
  show ?thesis
    using sp kv un parts pe asc bad by (simp add: list_all_iff)
qed

end
